theory Spec2Isabelle
  imports Complex_Main
begin

section \<open>Objects and collaborators of the render view\<close>

text \<open>
  The view works on JavaScript objects that it holds by reference: viewports, 3D objects,
  scene-graph components and nodes, the scene and the camera. A reference is modelled as
  a natural number (the identity of the object); \<open>None\<close> stands for \<open>null\<close> and
  \<open>undefined\<close>, which the code does not distinguish (it only tests truthiness).
\<close>

type_synonym vref = nat
type_synonym oref = nat
type_synonym cref = nat
type_synonym nref = nat
type_synonym scene = nat
type_synonym camera = nat

text \<open>
  The two ways a call can end with an exception: the \<open>Error("viewport not found")\<close>
  thrown by \<open>removeViewport\<close>, and the \<open>TypeError\<close> JavaScript raises when a
  property of \<open>null\<close> or \<open>undefined\<close> is read.
\<close>

datatype error = ViewportNotFound | TypeError

text \<open>
  The class \<open>Viewport\<close> is imported from \<open>../Viewport\<close>. The view reads its
  \<open>enabled\<close> flag and calls \<open>isPointInside\<close>, \<open>getDeviceX\<close> and \<open>getDeviceY\<close>;
  what these methods compute is a parameter of the model, one function per object.
\<close>

record Viewport =
  enabled :: bool
  isPointInside :: "real \<Rightarrow> real \<Rightarrow> bool"
  getDeviceX :: "real \<Rightarrow> real"
  getDeviceY :: "real \<Rightarrow> real"

text \<open>
  Input events (\<open>@ff/browser/ManipTarget\<close>). Only the fields the view reads are named;
  the enumerations list the members the view tests (\<open>Hover\<close>, \<open>Down\<close>) and the
  remaining kinds of event.
\<close>

datatype EPointerEventType = Down | Move | Up | Hover
datatype ETriggerEventType = Wheel | DblClick | ContextMenu

record manip_event =
  localX :: real
  localY :: real

record pointer_event = manip_event +
  ptype :: EPointerEventType
  isPrimary :: bool

record trigger_event = manip_event +
  ttype :: ETriggerEventType

text \<open>
  \<open>IBaseEvent\<close>: the input event together with the fields \<open>routeEvent\<close> writes
  into it. The source augments the event object in place; the model keeps the input
  event in the field \<open>event\<close>.
\<close>

record 'e view_event =
  event :: 'e
  view :: nat
  viewport :: vref
  deviceX :: real
  deviceY :: real
  stopPropagation :: bool
  object3D :: "oref option"
  component :: "cref option"
  node :: "nref option"

text \<open>
  \<open>RenderSystem\<close>: the active scene and camera, the index-to-object lookup, and the
  two event handlers. A handler is modelled by the value it leaves in the event's
  \<open>stopPropagation\<close> flag.
\<close>

record RenderSystem =
  activeScene :: "scene option"
  activeCamera :: "camera option"
  getObjectByIndex :: "int \<Rightarrow> oref option"
  sysOnPointer :: "pointer_event view_event \<Rightarrow> bool"
  sysOnTrigger :: "trigger_event view_event \<Rightarrow> bool"

text \<open>
  The state of a \<open>RenderView\<close>: its own fields, and the objects it reaches through
  references (\<open>viewportObj\<close>: the viewport objects; \<open>userDataComponent\<close>: the entry
  \<open>userData["component"]\<close> of a 3D object; \<open>componentNode\<close>: the field \<open>node\<close> of a
  component). \<open>pickIndex\<close> is the method of the view's \<open>Picker\<close>.
\<close>

record RenderView =
  viewId :: nat
  system :: "RenderSystem option"
  viewports :: "vref list"
  activeViewport :: "vref option"
  activeObject3D :: "oref option"
  activeComponent :: "cref option"
  pickIndex :: "scene \<Rightarrow> camera \<Rightarrow> manip_event view_event \<Rightarrow> int"
  viewportObj :: "vref \<Rightarrow> Viewport"
  userDataComponent :: "oref \<Rightarrow> cref option"
  componentNode :: "cref \<Rightarrow> nref"

section \<open>The viewport registry\<close>

text \<open>\<open>Array.prototype.indexOf\<close>: the first index holding the element, or -1.\<close>

fun indexOf :: "'a list \<Rightarrow> 'a \<Rightarrow> int" where
  "indexOf [] x = -1"
| "indexOf (y # ys) x =
     (if y = x then 0 else (let i = indexOf ys x in if i < 0 then -1 else i + 1))"

text \<open>
  \<open>Array.prototype.slice(start, end)\<close> on integer arguments: a new array with the
  elements from \<open>start\<close> up to, not including, \<open>end\<close>; a negative argument counts from
  the end. The receiver is not changed.
\<close>

definition slice :: "'a list \<Rightarrow> int \<Rightarrow> int \<Rightarrow> 'a list" where
  "slice xs start end =
     (let n = int (length xs);
          k = (if start < 0 then max (n + start) 0 else min start n);
          final = (if end < 0 then max (n + end) 0 else min end n)
      in take (nat (final - k)) (drop (nat k) xs))"

text \<open>
  \<open>removeViewport\<close>: the result of \<open>slice\<close> is dropped and \<open>this.viewports\<close> is
  not assigned.
\<close>

definition removeViewport :: "RenderView \<Rightarrow> vref \<Rightarrow> error + RenderView" where
  "removeViewport v vp =
     (let index = indexOf (viewports v) vp in
      if index < 0 then Inl ViewportNotFound
      else (let dropped = slice (viewports v) index 1 in Inr v))"

text \<open>
  \<open>enableViewport\<close>: \<open>this.viewports[index]\<close> is \<open>undefined\<close> out of range, and the
  assignment to its \<open>enabled\<close> property then raises a \<open>TypeError\<close>.
\<close>

definition enableViewport :: "RenderView \<Rightarrow> int \<Rightarrow> bool \<Rightarrow> error + RenderView" where
  "enableViewport v index en =
     (if 0 \<le> index \<and> index < int (length (viewports v))
      then (let r = viewports v ! nat index in
            Inr (v\<lparr>viewportObj := (viewportObj v)(r := (viewportObj v r)\<lparr>enabled := en\<rparr>)\<rparr>))
      else Inl TypeError)"

definition getViewportCount :: "RenderView \<Rightarrow> nat" where
  "getViewportCount v = length (viewports v)"

section \<open>Event routing\<close>

text \<open>
  The loop of the hit test: the viewports in the order of the array, stopping at the
  first that is enabled and contains the point.
\<close>

fun hitTest :: "(vref \<Rightarrow> Viewport) \<Rightarrow> vref list \<Rightarrow> real \<Rightarrow> real \<Rightarrow> vref option" where
  "hitTest h [] x y = None"
| "hitTest h (vp # vps) x y =
     (if enabled (h vp) \<and> isPointInside (h vp) x y then Some vp else hitTest h vps x y)"

text \<open>
  The 3D pick of \<open>routeEvent\<close> (the body of \<open>if (doPick)\<close>). Reading
  \<open>this.system.activeScene\<close> without a system, and reading \<open>component.type\<close> for the
  log line when the picked object has no component in its \<open>userData\<close>, raise a
  \<open>TypeError\<close>.
\<close>

definition pick ::
  "RenderView \<Rightarrow> manip_event view_event \<Rightarrow> error + (oref option \<times> cref option)" where
  "pick v ev =
     (case system v of
        None \<Rightarrow> Inl TypeError
      | Some sys \<Rightarrow>
          (case (activeScene sys, activeCamera sys) of
             (Some sc, Some cam) \<Rightarrow>
               (let index = pickIndex v sc cam ev in
                if index = 0 then Inr (None, None)
                else (case getObjectByIndex sys index of
                        None \<Rightarrow> Inr (None, None)
                      | Some obj \<Rightarrow>
                          (case userDataComponent v obj of
                             None \<Rightarrow> Inl TypeError
                           | Some c \<Rightarrow> Inr (Some obj, Some c))))
           | _ \<Rightarrow> Inr (None, None)))"

definition augment :: "RenderView \<Rightarrow> 'e \<Rightarrow> real \<Rightarrow> real \<Rightarrow> vref \<Rightarrow> 'e view_event" where
  "augment v e x y vp =
     \<lparr>event = e, view = viewId v, viewport = vp,
      deviceX = getDeviceX (viewportObj v vp) x,
      deviceY = getDeviceY (viewportObj v vp) y,
      stopPropagation = False,
      object3D = None, component = None, node = None\<rparr>"

text \<open>
  \<open>routeEvent\<close> returns the routed event (\<open>None\<close> for \<open>null\<close>) and the view after the
  call. When an exception leaves the function, the fields of the view have not been
  assigned yet.
\<close>

definition routeEvent ::
  "RenderView \<Rightarrow> 'a manip_event_scheme \<Rightarrow> bool \<Rightarrow> bool
     \<Rightarrow> error + ('a manip_event_scheme view_event option \<times> RenderView)" where
  "routeEvent v e doHitTest doPick =
     (let vpt = (if doHitTest
                 then hitTest (viewportObj v) (viewports v) (localX e) (localY e)
                 else activeViewport v)
      in case vpt of
           None \<Rightarrow> Inr (None, v)
         | Some vp \<Rightarrow>
             (let viewEvent = augment v e (localX e) (localY e) vp;
                  picked = (if doPick
                            then pick v (augment v (manip_event.truncate e) (localX e) (localY e) vp)
                            else Inr (activeObject3D v, activeComponent v))
              in case picked of
                   Inl err \<Rightarrow> Inl err
                 | Inr (obj, cmpt) \<Rightarrow>
                     Inr (Some (viewEvent\<lparr>object3D := obj, component := cmpt,
                                         node := map_option (componentNode v) cmpt\<rparr>),
                          v\<lparr>activeViewport := Some vp, activeObject3D := obj,
                            activeComponent := cmpt\<rparr>)))"

text \<open>
  The calls the view makes on its collaborators while dispatching, in order:
  \<open>system.onPointer\<close>, \<open>viewport.onPointer\<close>, \<open>system.onTrigger\<close>,
  \<open>viewport.onTrigger\<close>, each with the event it is given.
\<close>

datatype delivery =
    SystemOnPointer "pointer_event view_event"
  | ViewportOnPointer vref "pointer_event view_event"
  | SystemOnTrigger "trigger_event view_event"
  | ViewportOnTrigger vref "trigger_event view_event"

definition pointerFlags :: "pointer_event \<Rightarrow> bool \<times> bool" where
  "pointerFlags e =
     (if ptype e = Hover then (True, False)
      else if isPrimary e \<and> ptype e = Down then (True, True)
      else (False, False))"

definition onPointer ::
  "RenderView \<Rightarrow> pointer_event \<Rightarrow> error + (bool \<times> delivery list \<times> RenderView)" where
  "onPointer v e =
     (case system v of
        None \<Rightarrow> Inr (False, [], v)
      | Some sys \<Rightarrow>
          (let (doHitTest, doPick) = pointerFlags e in
           case routeEvent v e doHitTest doPick of
             Inl err \<Rightarrow> Inl err
           | Inr (None, v') \<Rightarrow> Inr (False, [], v')
           | Inr (Some viewEvent, v') \<Rightarrow>
               (let stop = sysOnPointer sys viewEvent;
                    handled = viewEvent\<lparr>stopPropagation := stop\<rparr>
                in Inr (True,
                        SystemOnPointer viewEvent #
                          (if \<not> stop then [ViewportOnPointer (viewport handled) handled] else []),
                        v'))))"

definition onTrigger ::
  "RenderView \<Rightarrow> trigger_event \<Rightarrow> error + (bool \<times> delivery list \<times> RenderView)" where
  "onTrigger v e =
     (case system v of
        None \<Rightarrow> Inr (False, [], v)
      | Some sys \<Rightarrow>
          (case routeEvent v e True True of
             Inl err \<Rightarrow> Inl err
           | Inr (None, v') \<Rightarrow> Inr (False, [], v')
           | Inr (Some viewEvent, v') \<Rightarrow>
               (let stop = sysOnTrigger sys viewEvent;
                    handled = viewEvent\<lparr>stopPropagation := stop\<rparr>
                in Inr (True,
                        SystemOnTrigger viewEvent #
                          (if \<not> stop then [ViewportOnTrigger (viewport handled) handled] else []),
                        v'))))"

text \<open>
  The two parts of \<open>routeEvent\<close> that its callers and the statements below refer to
  by name: the viewport the function settles on before it builds the event, and the event
  as the picker receives it (an \<open>IViewportBaseEvent\<close>, before the picked object is
  attached).
\<close>

definition resolve :: "RenderView \<Rightarrow> 'a manip_event_scheme \<Rightarrow> bool \<Rightarrow> vref option" where
  "resolve v e doHitTest =
     (if doHitTest then hitTest (viewportObj v) (viewports v) (localX e) (localY e)
      else activeViewport v)"

definition pickQuery ::
  "RenderView \<Rightarrow> 'a manip_event_scheme \<Rightarrow> vref \<Rightarrow> manip_event view_event" where
  "pickQuery v e vp = augment v (manip_event.truncate e) (localX e) (localY e) vp"

section \<open>Sequences of input events\<close>

text \<open>
  The input layer calls \<open>onPointer\<close> and \<open>onTrigger\<close> once per event. An exception
  leaves the view as it was (no field is assigned before the point where \<open>routeEvent\<close>
  can raise), and the next event is processed on that state.
\<close>

datatype input = PointerInput pointer_event | TriggerInput trigger_event

definition dispatch ::
  "RenderView \<Rightarrow> input \<Rightarrow> error + (bool \<times> delivery list \<times> RenderView)" where
  "dispatch v i = (case i of PointerInput e \<Rightarrow> onPointer v e | TriggerInput e \<Rightarrow> onTrigger v e)"

fun process :: "RenderView \<Rightarrow> input list \<Rightarrow> (error + (bool \<times> delivery list)) list" where
  "process v [] = []"
| "process v (i # is) =
     (case dispatch v i of
        Inl err \<Rightarrow> Inl err # process v is
      | Inr (r, ds, v') \<Rightarrow> Inr (r, ds) # process v' is)"

fun deliveredViewport :: "delivery \<Rightarrow> vref" where
  "deliveredViewport (SystemOnPointer ev) = viewport ev"
| "deliveredViewport (ViewportOnPointer r ev) = viewport ev"
| "deliveredViewport (SystemOnTrigger ev) = viewport ev"
| "deliveredViewport (ViewportOnTrigger r ev) = viewport ev"

section \<open>Predicates of the statements\<close>

text \<open>A viewport is hit by a point when it is enabled and its bounds contain the point.\<close>

definition hits :: "RenderView \<Rightarrow> real \<Rightarrow> real \<Rightarrow> vref \<Rightarrow> bool" where
  "hits v x y r = (enabled (viewportObj v r) \<and> isPointInside (viewportObj v r) x y)"

definition registeredEnabled :: "RenderView \<Rightarrow> vref \<Rightarrow> bool" where
  "registeredEnabled v r = (r \<in> set (viewports v) \<and> enabled (viewportObj v r))"

text \<open>
  The state invariant of event processing: the active viewport, when there is one, is
  registered and enabled. It holds for a new view, whose active viewport is \<open>null\<close>.
\<close>

definition activeRegistered :: "RenderView \<Rightarrow> bool" where
  "activeRegistered v =
     (case activeViewport v of None \<Rightarrow> True | Some r \<Rightarrow> registeredEnabled v r)"

section \<open>A view with three viewports\<close>

text \<open>
  A concrete view for evaluating the model: viewport 2 is registered first, covers
  everything and is disabled; viewports 0 and 1 are enabled and overlap for
  \<open>50 \<le> x < 100\<close>. The picker answers index 1 (an object with a component) left of
  \<open>x = 50\<close>, index 0 (background) up to \<open>x = 100\<close> and index 5, which the system
  does not know, beyond. The system's pointer handler stops the propagation of events
  that carry no object.
\<close>

definition exViewportA :: Viewport where
  "exViewportA = \<lparr>enabled = True,
     isPointInside = (\<lambda>x y. 0 \<le> x \<and> x < 100 \<and> 0 \<le> y \<and> y < 100),
     getDeviceX = (\<lambda>x. x / 50 - 1), getDeviceY = (\<lambda>y. 1 - y / 50)\<rparr>"

definition exViewportB :: Viewport where
  "exViewportB = \<lparr>enabled = True,
     isPointInside = (\<lambda>x y. 50 \<le> x \<and> x < 200 \<and> 0 \<le> y \<and> y < 100),
     getDeviceX = (\<lambda>x. (x - 50) / 75 - 1), getDeviceY = (\<lambda>y. 1 - y / 50)\<rparr>"

definition exViewportC :: Viewport where
  "exViewportC = \<lparr>enabled = False,
     isPointInside = (\<lambda>x y. True),
     getDeviceX = (\<lambda>x. x), getDeviceY = (\<lambda>y. y)\<rparr>"

definition exSystem :: RenderSystem where
  "exSystem = \<lparr>activeScene = Some 0, activeCamera = Some 0,
     getObjectByIndex = (\<lambda>i. if i = 1 then Some 7 else None),
     sysOnPointer = (\<lambda>ev. object3D ev = None),
     sysOnTrigger = (\<lambda>ev. False)\<rparr>"

definition exView :: RenderView where
  "exView = \<lparr>viewId = 0, system = Some exSystem, viewports = [2, 0, 1],
     activeViewport = None, activeObject3D = None, activeComponent = None,
     pickIndex = (\<lambda>sc cam q. if localX (event q) < 50 then 1
                              else if localX (event q) < 100 then 0 else 5),
     viewportObj = (\<lambda>r. if r = 0 then exViewportA else if r = 1 then exViewportB else exViewportC),
     userDataComponent = (\<lambda>ob. if ob = 7 then Some 3 else None),
     componentNode = (\<lambda>c. c + 10)\<rparr>"

definition exDown :: "real \<Rightarrow> real \<Rightarrow> pointer_event" where
  "exDown x y = \<lparr>localX = x, localY = y, ptype = Down, isPrimary = True\<rparr>"

definition exMove :: "real \<Rightarrow> real \<Rightarrow> pointer_event" where
  "exMove x y = \<lparr>localX = x, localY = y, ptype = Move, isPrimary = True\<rparr>"

definition exHover :: "real \<Rightarrow> real \<Rightarrow> pointer_event" where
  "exHover x y = \<lparr>localX = x, localY = y, ptype = Hover, isPrimary = True\<rparr>"

definition exWheel :: "real \<Rightarrow> real \<Rightarrow> trigger_event" where
  "exWheel x y = \<lparr>localX = x, localY = y, ttype = Wheel\<rparr>"

text \<open>
  The event routed to viewport \<open>vp\<close> of \<open>exView\<close> with the object 7 and its
  component, and the view once that object is the active one on viewport 0.
\<close>

definition exPicked :: "'a manip_event_scheme \<Rightarrow> vref \<Rightarrow> 'a manip_event_scheme view_event" where
  "exPicked e vp = (augment exView e (localX e) (localY e) vp)
                     \<lparr>object3D := Some 7, component := Some 3, node := Some 13\<rparr>"

definition exViewActive :: RenderView where
  "exViewActive = exView\<lparr>activeViewport := Some 0, activeObject3D := Some 7,
                         activeComponent := Some 3\<rparr>"

text \<open>
  That view after \<open>enableViewport(1, false)\<close>: the second registered viewport, which is
  viewport 0, the active one, is disabled.
\<close>

definition exViewDisabled :: RenderView where
  "exViewDisabled =
     exViewActive\<lparr>viewportObj := (viewportObj exViewActive)(0 := exViewportA\<lparr>enabled := False\<rparr>)\<rparr>"

section \<open>The camera controller\<close>

text \<open>
  A JavaScript number, as far as the controller's clamping depends on it: \<open>NaN\<close>, the
  two infinities (the default limits are infinite) and the finite values. Arithmetic on
  the special values follows IEEE 754; on finite values it is exact, so rounding and
  overflow are left out, and a zero has no sign (a zero divisor counts as \<open>+0\<close>).
  Every comparison with \<open>NaN\<close> is false.
\<close>

datatype number = NaN | NegInf | Fin real | PosInf

fun js_neg :: "number \<Rightarrow> number" where
  "js_neg NaN = NaN"
| "js_neg NegInf = PosInf"
| "js_neg PosInf = NegInf"
| "js_neg (Fin a) = Fin (- a)"

fun js_add :: "number \<Rightarrow> number \<Rightarrow> number" where
  "js_add NaN b = NaN"
| "js_add a NaN = NaN"
| "js_add (Fin a) (Fin b) = Fin (a + b)"
| "js_add (Fin a) b = b"
| "js_add a (Fin b) = a"
| "js_add a b = (if a = b then a else NaN)"

definition js_sub :: "number \<Rightarrow> number \<Rightarrow> number" where
  "js_sub a b = js_add a (js_neg b)"

fun js_sign :: "number \<Rightarrow> real" where
  "js_sign NaN = 0"
| "js_sign NegInf = - 1"
| "js_sign PosInf = 1"
| "js_sign (Fin a) = sgn a"

fun js_mul :: "number \<Rightarrow> number \<Rightarrow> number" where
  "js_mul NaN b = NaN"
| "js_mul a NaN = NaN"
| "js_mul (Fin a) (Fin b) = Fin (a * b)"
| "js_mul a b =
     (if js_sign a * js_sign b = 0 then NaN
      else if js_sign a * js_sign b > 0 then PosInf else NegInf)"

fun js_div :: "number \<Rightarrow> number \<Rightarrow> number" where
  "js_div NaN b = NaN"
| "js_div a NaN = NaN"
| "js_div (Fin a) (Fin b) =
     (if b \<noteq> 0 then Fin (a / b)
      else if a = 0 then NaN else if a > 0 then PosInf else NegInf)"
| "js_div (Fin a) b = Fin 0"
| "js_div a (Fin b) = (if b \<ge> 0 then a else js_neg a)"
| "js_div a b = NaN"

fun js_lt :: "number \<Rightarrow> number \<Rightarrow> bool" where
  "js_lt NaN b = False"
| "js_lt a NaN = False"
| "js_lt (Fin a) (Fin b) = (a < b)"
| "js_lt NegInf b = (b \<noteq> NegInf)"
| "js_lt a PosInf = (a \<noteq> PosInf)"
| "js_lt a b = False"

definition js_gt :: "number \<Rightarrow> number \<Rightarrow> bool" where
  "js_gt a b = js_lt b a"

definition js_le :: "number \<Rightarrow> number \<Rightarrow> bool" where
  "js_le a b = (a \<noteq> NaN \<and> b \<noteq> NaN \<and> \<not> js_lt b a)"

fun js_abs :: "number \<Rightarrow> number" where
  "js_abs NaN = NaN"
| "js_abs NegInf = PosInf"
| "js_abs PosInf = PosInf"
| "js_abs (Fin a) = Fin \<bar>a\<bar>"

text \<open>
  \<open>math.limit\<close> belongs to the library \<open>@ff/core\<close>, which is not part of this
  repository. It is taken as that library defines it, by two comparisons:
  \<open>v < min ? min : (v > max ? max : v)\<close>.
\<close>

definition limit :: "number \<Rightarrow> number \<Rightarrow> number \<Rightarrow> number" where
  "limit v lo hi = (if js_lt v lo then lo else if js_gt v hi then hi else v)"

text \<open>\<open>THREE.Vector3\<close>; its fields \<open>x\<close>, \<open>y\<close>, \<open>z\<close> are named \<open>vx\<close>, \<open>vy\<close>, \<open>vz\<close>.\<close>

record Vector3 =
  vx :: number
  vy :: number
  vz :: number

text \<open>
  The member \<open>Off\<close> of both enumerations is named \<open>ModeOff\<close> and \<open>PhaseOff\<close>.
\<close>

datatype EManipMode = ModeOff | Pan | Orbit | Dolly | Zoom | PanDolly | Roll
datatype EManipPhase = PhaseOff | Active | Release

record CameraController =
  orbit :: Vector3
  offset :: Vector3
  minOrbit :: Vector3
  maxOrbit :: Vector3
  minOffset :: Vector3
  maxOffset :: Vector3
  orientationEnabled :: bool
  offsetEnabled :: bool
  mode :: EManipMode
  phase :: EManipPhase
  prevPinchDist :: number
  deltaX :: number
  deltaY :: number
  deltaPinch :: number
  deltaWheel :: number
  viewportWidth :: number
  viewportHeight :: number

text \<open>The field initialisers of the class.\<close>

definition newCameraController :: CameraController where
  "newCameraController =
     \<lparr>orbit = \<lparr>vx = Fin 0, vy = Fin 0, vz = Fin 0\<rparr>,
      offset = \<lparr>vx = Fin 0, vy = Fin 0, vz = Fin 50\<rparr>,
      minOrbit = \<lparr>vx = Fin (- 90), vy = NegInf, vz = NegInf\<rparr>,
      maxOrbit = \<lparr>vx = Fin 90, vy = PosInf, vz = PosInf\<rparr>,
      minOffset = \<lparr>vx = NegInf, vy = NegInf, vz = Fin (1 / 10)\<rparr>,
      maxOffset = \<lparr>vx = PosInf, vy = PosInf, vz = Fin 1000\<rparr>,
      orientationEnabled = True, offsetEnabled = True,
      mode = ModeOff, phase = PhaseOff, prevPinchDist = Fin 0,
      deltaX = Fin 0, deltaY = Fin 0, deltaPinch = Fin 0, deltaWheel = Fin 0,
      viewportWidth = Fin 100, viewportHeight = Fin 100\<rparr>"

definition setViewportSize ::
  "CameraController \<Rightarrow> number \<Rightarrow> number \<Rightarrow> CameraController" where
  "setViewportSize c width height = c\<lparr>viewportWidth := width, viewportHeight := height\<rparr>"

text \<open>
  \<open>updatePose\<close>, in its two blocks. \<open>inverse * dPitch * 300 / this.viewportHeight\<close>
  associates to the left; each component is assigned the sum first and its limited value
  last.
\<close>

definition updateOrbit ::
  "CameraController \<Rightarrow> number \<Rightarrow> number \<Rightarrow> number \<Rightarrow> CameraController" where
  "updateOrbit c dPitch dHead dRoll =
     (let inverse = Fin (- 1);
          ox = js_add (vx (orbit c))
                 (js_div (js_mul (js_mul inverse dPitch) (Fin 300)) (viewportHeight c));
          oy = js_add (vy (orbit c))
                 (js_div (js_mul (js_mul inverse dHead) (Fin 300)) (viewportHeight c));
          oz = js_add (vz (orbit c))
                 (js_div (js_mul (js_mul inverse dRoll) (Fin 300)) (viewportHeight c))
      in c\<lparr>orbit := \<lparr>vx = limit ox (vx (minOrbit c)) (vx (maxOrbit c)),
                       vy = limit oy (vy (minOrbit c)) (vy (maxOrbit c)),
                       vz = limit oz (vz (minOrbit c)) (vz (maxOrbit c))\<rparr>\<rparr>)"

definition updateOffset ::
  "CameraController \<Rightarrow> number \<Rightarrow> number \<Rightarrow> number \<Rightarrow> CameraController" where
  "updateOffset c dX dY dScale =
     (let inverse = Fin (- 1);
          factor = js_mul dScale (vz (offset c));
          fx = js_add (vx (offset c))
                 (js_div (js_mul (js_mul dX factor) inverse) (viewportHeight c));
          fy = js_sub (vy (offset c))
                 (js_div (js_mul (js_mul dY factor) inverse) (viewportHeight c))
      in c\<lparr>offset := \<lparr>vx = limit fx (vx (minOffset c)) (vx (maxOffset c)),
                        vy = limit fy (vy (minOffset c)) (vy (maxOffset c)),
                        vz = limit factor (vz (minOffset c)) (vz (maxOffset c))\<rparr>\<rparr>)"

definition updatePose ::
  "CameraController \<Rightarrow> number \<Rightarrow> number \<Rightarrow> number \<Rightarrow> number \<Rightarrow> number \<Rightarrow> number
     \<Rightarrow> CameraController" where
  "updatePose c dX dY dScale dPitch dHead dRoll =
     (let c1 = (if orientationEnabled c then updateOrbit c dPitch dHead dRoll else c)
      in if offsetEnabled c1 then updateOffset c1 dX dY dScale else c1)"

definition updateByMode :: "CameraController \<Rightarrow> CameraController" where
  "updateByMode c =
     (case mode c of
        Orbit \<Rightarrow> updatePose c (Fin 0) (Fin 0) (Fin 1) (deltaY c) (deltaX c) (Fin 0)
      | Pan \<Rightarrow> updatePose c (deltaX c) (deltaY c) (Fin 1) (Fin 0) (Fin 0) (Fin 0)
      | Roll \<Rightarrow> updatePose c (Fin 0) (Fin 0) (Fin 1) (Fin 0) (Fin 0) (deltaX c)
      | Dolly \<Rightarrow> updatePose c (Fin 0) (Fin 0)
                  (js_add (js_mul (deltaY c) (Fin (75 / 10000))) (Fin 1)) (Fin 0) (Fin 0) (Fin 0)
      | PanDolly \<Rightarrow>
          (let pinchScale = js_add (js_mul (js_sub (deltaPinch c) (Fin 1)) (Fin (1 / 2))) (Fin 1)
           in updatePose c (deltaX c) (deltaY c) (js_div (Fin 1) pinchScale) (Fin 0) (Fin 0) (Fin 0))
      | _ \<Rightarrow> c)"

text \<open>\<open>update\<close> returns whether the state has changed, and the controller.\<close>

definition update :: "CameraController \<Rightarrow> bool \<times> CameraController" where
  "update c =
     (if phase c = PhaseOff \<and> deltaWheel c = Fin 0 then (False, c)
      else if deltaWheel c \<noteq> Fin 0 then
        (True, (updatePose c (Fin 0) (Fin 0)
                  (js_add (js_mul (deltaWheel c) (Fin (7 / 100))) (Fin 1)) (Fin 0) (Fin 0) (Fin 0))
                \<lparr>deltaWheel := Fin 0\<rparr>)
      else if phase c = Active then
        (if deltaX c = Fin 0 \<and> deltaY c = Fin 0 \<and> deltaPinch c = Fin 1 then (False, c)
         else (True, (updateByMode c)\<lparr>deltaX := Fin 0, deltaY := Fin 0, deltaPinch := Fin 1\<rparr>))
      else if phase c = Release then
        (let c1 = updateByMode (c\<lparr>deltaX := js_mul (deltaX c) (Fin (85 / 100)),
                                  deltaY := js_mul (deltaY c) (Fin (85 / 100)),
                                  deltaPinch := Fin 1\<rparr>);
             delta = js_add (js_abs (deltaX c1)) (js_abs (deltaY c1))
         in (True, if js_lt delta (Fin (1 / 10)) then c1\<lparr>mode := ModeOff, phase := PhaseOff\<rparr>
                   else c1))
      else (False, c))"

text \<open>
  The clamping predicates: a value lies in \<open>[lo, hi]\<close>; a vector does componentwise;
  the controller's orbit and offset lie within their limits. \<open>clampedOrNaN\<close> lets a
  component be \<open>NaN\<close> instead; \<open>limitsOrdered\<close> says that each lower limit is at
  most its upper limit.
\<close>

definition inRange :: "number \<Rightarrow> number \<Rightarrow> number \<Rightarrow> bool" where
  "inRange a lo hi = (js_le lo a \<and> js_le a hi)"

definition inRangeV :: "Vector3 \<Rightarrow> Vector3 \<Rightarrow> Vector3 \<Rightarrow> bool" where
  "inRangeV a lo hi = (inRange (vx a) (vx lo) (vx hi) \<and> inRange (vy a) (vy lo) (vy hi)
                       \<and> inRange (vz a) (vz lo) (vz hi))"

definition clamped :: "CameraController \<Rightarrow> bool" where
  "clamped c = (inRangeV (orbit c) (minOrbit c) (maxOrbit c)
                \<and> inRangeV (offset c) (minOffset c) (maxOffset c))"

definition nanOrInRange :: "number \<Rightarrow> number \<Rightarrow> number \<Rightarrow> bool" where
  "nanOrInRange a lo hi = (a = NaN \<or> inRange a lo hi)"

definition nanOrInRangeV :: "Vector3 \<Rightarrow> Vector3 \<Rightarrow> Vector3 \<Rightarrow> bool" where
  "nanOrInRangeV a lo hi =
     (nanOrInRange (vx a) (vx lo) (vx hi) \<and> nanOrInRange (vy a) (vy lo) (vy hi)
      \<and> nanOrInRange (vz a) (vz lo) (vz hi))"

definition clampedOrNaN :: "CameraController \<Rightarrow> bool" where
  "clampedOrNaN c = (nanOrInRangeV (orbit c) (minOrbit c) (maxOrbit c)
                     \<and> nanOrInRangeV (offset c) (minOffset c) (maxOffset c))"

definition orderedV :: "Vector3 \<Rightarrow> Vector3 \<Rightarrow> bool" where
  "orderedV lo hi = (js_le (vx lo) (vx hi) \<and> js_le (vy lo) (vy hi) \<and> js_le (vz lo) (vz hi))"

definition limitsOrdered :: "CameraController \<Rightarrow> bool" where
  "limitsOrdered c = (orderedV (minOrbit c) (maxOrbit c) \<and> orderedV (minOffset c) (maxOffset c))"

text \<open>
  A controller whose pitch limits have been assigned in the wrong order (the limit
  vectors are public fields).
\<close>

definition exInvertedLimits :: CameraController where
  "exInvertedLimits =
     newCameraController\<lparr>minOrbit := \<lparr>vx = Fin 45, vy = NegInf, vz = NegInf\<rparr>,
                          maxOrbit := \<lparr>vx = Fin (- 45), vy = PosInf, vz = PosInf\<rparr>\<rparr>"

section \<open>Facts about the registry operations\<close>

lemmas ex_defs = exViewportA_def exViewportB_def exViewportC_def exSystem_def exView_def
  exDown_def exMove_def exHover_def exWheel_def exPicked_def exViewActive_def
  exViewDisabled_def

lemmas route_defs = routeEvent_def pick_def augment_def pointerFlags_def onPointer_def
  onTrigger_def Let_def resolve_def pickQuery_def hits_def manip_event.truncate_def

lemma indexOf_ge: "- 1 \<le> indexOf xs x"
  by (induction xs) (auto simp: Let_def)

lemma indexOf_neg_iff: "indexOf xs x < 0 \<longleftrightarrow> x \<notin> set xs"
  using indexOf_ge[of _ x] by (induction xs) (auto simp: Let_def)

lemma enableViewport_not_found: "enableViewport v i en \<noteq> Inl ViewportNotFound"
  by (simp add: enableViewport_def Let_def)

lemma enableViewport_raises_iff:
  "enableViewport v i en = Inl TypeError \<longleftrightarrow> \<not> (0 \<le> i \<and> i < int (length (viewports v)))"
  by (simp add: enableViewport_def Let_def)

lemma enableViewport_in_range:
  "0 \<le> i \<and> i < int (length (viewports v)) \<Longrightarrow> \<exists>v'. enableViewport v i en = Inr v'"
  by (simp add: enableViewport_def Let_def)

section \<open>Facts about the hit test and the routing\<close>

lemma hitTest_None_iff:
  "hitTest h vps x y = None \<longleftrightarrow> (\<forall>r \<in> set vps. \<not> (enabled (h r) \<and> isPointInside (h r) x y))"
  by (induction vps) auto

lemma hitTest_Some_mem:
  "hitTest h vps x y = Some r \<Longrightarrow> r \<in> set vps \<and> enabled (h r)"
  by (induction vps) (auto split: if_splits)

lemma hitTest_Some_first:
  "hitTest h vps x y = Some r \<Longrightarrow>
     \<exists>i < length vps. vps ! i = r \<and> enabled (h r) \<and> isPointInside (h r) x y
        \<and> (\<forall>j < i. \<not> (enabled (h (vps ! j)) \<and> isPointInside (h (vps ! j)) x y))"
proof (induction vps)
  case Nil
  then show ?case by simp
next
  case (Cons a vps)
  show ?case
  proof (cases "enabled (h a) \<and> isPointInside (h a) x y")
    case True
    with Cons.prems have "r = a" by simp
    with True show ?thesis by (intro exI[of _ 0]) simp
  next
    case False
    with Cons.prems have "hitTest h vps x y = Some r" by auto
    from Cons.IH[OF this] obtain i where i: "i < length vps" "vps ! i = r"
      "enabled (h r)" "isPointInside (h r) x y"
      "\<forall>j < i. \<not> (enabled (h (vps ! j)) \<and> isPointInside (h (vps ! j)) x y)" by blast
    show ?thesis
    proof (intro exI[of _ "Suc i"] conjI allI impI)
      fix j assume "j < Suc i"
      then show "\<not> (enabled (h ((a # vps) ! j)) \<and> isPointInside (h ((a # vps) ! j)) x y)"
        using False i(5) by (cases j) auto
    qed (use i in auto)
  qed
qed

lemma augment_sel:
  "event (augment v e x y vp) = e" "view (augment v e x y vp) = viewId v"
  "viewport (augment v e x y vp) = vp"
  "deviceX (augment v e x y vp) = getDeviceX (viewportObj v vp) x"
  "deviceY (augment v e x y vp) = getDeviceY (viewportObj v vp) y"
  "stopPropagation (augment v e x y vp) = False"
  "object3D (augment v e x y vp) = None" "component (augment v e x y vp) = None"
  "node (augment v e x y vp) = None"
  by (simp_all add: augment_def)

lemma routeEvent_hit_viewport:
  "routeEvent v e True dp = Inr (Some ev, v') \<Longrightarrow>
     hitTest (viewportObj v) (viewports v) (localX e) (localY e) = Some (viewport ev)"
  by (auto simp: routeEvent_def augment_def Let_def split: option.splits sum.splits prod.splits)

lemma routeEvent_hit_none:
  "hitTest (viewportObj v) (viewports v) (localX e) (localY e) = None \<Longrightarrow>
     routeEvent v e True dp = Inr (None, v)"
  by (simp add: routeEvent_def)

lemma routeEvent_frame:
  "routeEvent v e ht dp = Inr (res, v') \<Longrightarrow>
     system v' = system v \<and> viewports v' = viewports v \<and> viewportObj v' = viewportObj v"
  by (auto simp: routeEvent_def Let_def split: option.splits sum.splits prod.splits if_splits)

lemma routeEvent_not_found: "routeEvent v e ht dp \<noteq> Inl ViewportNotFound"
  by (auto simp: routeEvent_def pick_def Let_def split: option.splits sum.splits prod.splits if_splits)

lemma routeEvent_sticky:
  "activeViewport v = Some vp \<Longrightarrow>
   routeEvent v e False False =
     Inr (Some ((augment v e (localX e) (localY e) vp)
                  \<lparr>object3D := activeObject3D v, component := activeComponent v,
                   node := map_option (componentNode v) (activeComponent v)\<rparr>), v)"
  by (simp add: routeEvent_def Let_def)

lemma routeEvent_active:
  "routeEvent v e ht dp = Inr (Some ev, v') \<Longrightarrow>
     activeViewport v' = Some (viewport ev) \<and> activeObject3D v' = object3D ev
     \<and> activeComponent v' = component ev \<and> node ev = map_option (componentNode v) (component ev)
     \<and> componentNode v' = componentNode v"
  by (auto simp: routeEvent_def Let_def augment_sel split: option.splits sum.splits prod.splits if_splits)

lemma routeEvent_None_unchanged:
  "routeEvent v e ht dp = Inr (None, v') \<Longrightarrow> v' = v"
  by (auto simp: routeEvent_def Let_def split: option.splits sum.splits prod.splits if_splits)

lemma routeEvent_stop:
  "routeEvent v e ht dp = Inr (Some ev, v') \<Longrightarrow>
     stopPropagation ev = False \<and> event ev = e \<and> view ev = viewId v"
  by (auto simp: routeEvent_def Let_def augment_sel split: option.splits sum.splits prod.splits if_splits)

lemma view_event_stop_id: "stopPropagation ev = False \<Longrightarrow> ev\<lparr>stopPropagation := False\<rparr> = ev"
  by simp

lemma hitTest_first:
  "i < length vps \<Longrightarrow> enabled (h (vps ! i)) \<and> isPointInside (h (vps ! i)) x y \<Longrightarrow>
   \<forall>j < i. \<not> (enabled (h (vps ! j)) \<and> isPointInside (h (vps ! j)) x y) \<Longrightarrow>
   hitTest h vps x y = Some (vps ! i)"
proof (induction vps arbitrary: i)
  case Nil
  then show ?case by simp
next
  case (Cons a vps)
  show ?case
  proof (cases i)
    case 0
    with Cons.prems show ?thesis by simp
  next
    case (Suc k)
    with Cons.prems(3) have na: "\<not> (enabled (h a) \<and> isPointInside (h a) x y)" by auto
    from Suc Cons.prems have "k < length vps"
      "enabled (h (vps ! k)) \<and> isPointInside (h (vps ! k)) x y" by simp_all
    moreover from Suc Cons.prems(3)
    have "\<forall>j < k. \<not> (enabled (h (vps ! j)) \<and> isPointInside (h (vps ! j)) x y)" by auto
    ultimately have "hitTest h vps x y = Some (vps ! k)" by (rule Cons.IH)
    with na Suc show ?thesis by auto
  qed
qed

lemma routeEvent_resolved_cases:
  "resolve v e ht = Some vp \<Longrightarrow>
     routeEvent v e ht dp = Inl TypeError
     \<or> (\<exists>ev v'. routeEvent v e ht dp = Inr (Some ev, v') \<and> viewport ev = vp)"
  by (auto simp: routeEvent_def pick_def resolve_def Let_def augment_sel
           split: option.splits sum.splits prod.splits if_splits)

lemma routeEvent_resolved_no_pick:
  "resolve v e ht = Some vp \<Longrightarrow>
     \<exists>ev v'. routeEvent v e ht False = Inr (Some ev, v') \<and> viewport ev = vp"
  by (auto simp: routeEvent_def resolve_def Let_def augment_sel)

lemma pick_total:
  assumes "system v = Some sys"
    and "\<forall>i ob. getObjectByIndex sys i = Some ob \<longrightarrow> userDataComponent v ob \<noteq> None"
  shows "\<exists>p. pick v q = Inr p"
  using assms by (auto simp: pick_def Let_def split: option.splits) (metis option.distinct(1))

lemma routeEvent_total:
  assumes "system v = Some sys"
    and "\<forall>i ob. getObjectByIndex sys i = Some ob \<longrightarrow> userDataComponent v ob \<noteq> None"
  shows "\<exists>res. routeEvent v e ht dp = Inr res"
proof (cases "resolve v e ht")
  case None
  then show ?thesis by (simp add: routeEvent_def resolve_def)
next
  case (Some vp)
  show ?thesis
  proof (cases dp)
    case True
    from pick_total[OF assms, of "pickQuery v e vp"] obtain p where
      "pick v (pickQuery v e vp) = Inr p" ..
    with Some True show ?thesis
      by (cases p) (simp add: routeEvent_def resolve_def pickQuery_def Let_def)
  next
    case False
    with Some show ?thesis by (simp add: routeEvent_def resolve_def Let_def)
  qed
qed

text \<open>
  The one way \<open>routeEvent\<close> can raise on a view that has a system: the picked index
  maps to an object whose \<open>userData\<close> holds no component, and the log line reads
  \<open>component.type\<close>.
\<close>

lemma picked_object_without_component_raises:
  "routeEvent (exView\<lparr>userDataComponent := (\<lambda>ob. None)\<rparr>) (exDown 20 10) True True
     = Inl TypeError"
  by (simp add: ex_defs route_defs)

section \<open>Facts about the dispatch methods\<close>

lemma onPointer_cases:
  assumes a: "onPointer v pe = Inr (r, ds, v')"
  shows "(r = False \<and> ds = [] \<and> v' = v \<and>
        (system v = None \<or> routeEvent v pe (fst (pointerFlags pe)) (snd (pointerFlags pe)) = Inr (None, v)))
   \<or> (\<exists>sys ev. system v = Some sys
         \<and> routeEvent v pe (fst (pointerFlags pe)) (snd (pointerFlags pe)) = Inr (Some ev, v')
         \<and> r = True
         \<and> ds = SystemOnPointer ev #
                 (if sysOnPointer sys ev then [] else [ViewportOnPointer (viewport ev) ev]))"
proof (cases "system v")
  case None
  with a show ?thesis by (simp add: onPointer_def)
next
  case (Some sys)
  show ?thesis
  proof (cases "routeEvent v pe (fst (pointerFlags pe)) (snd (pointerFlags pe))")
    case (Inl err)
    with a Some show ?thesis by (simp add: onPointer_def split_def)
  next
    case (Inr p)
    obtain res v2 where p: "p = (res, v2)" by (cases p)
    show ?thesis
    proof (cases res)
      case None
      with Inr p have "v2 = v" by (auto dest: routeEvent_None_unchanged)
      with a Some Inr p None show ?thesis by (simp add: onPointer_def split_def)
    next
      case (Some ev)
      with Inr p have "stopPropagation ev = False" by (auto dest: routeEvent_stop)
      with a \<open>system v = Some sys\<close> Inr p Some show ?thesis
        by (auto simp: onPointer_def split_def Let_def view_event_stop_id)
    qed
  qed
qed

lemma onTrigger_cases:
  assumes a: "onTrigger v te = Inr (r, ds, v')"
  shows "(r = False \<and> ds = [] \<and> v' = v \<and>
        (system v = None \<or> routeEvent v te True True = Inr (None, v)))
   \<or> (\<exists>sys ev. system v = Some sys
         \<and> routeEvent v te True True = Inr (Some ev, v')
         \<and> r = True
         \<and> ds = SystemOnTrigger ev #
                 (if sysOnTrigger sys ev then [] else [ViewportOnTrigger (viewport ev) ev]))"
proof (cases "system v")
  case None
  with a show ?thesis by (simp add: onTrigger_def)
next
  case (Some sys)
  show ?thesis
  proof (cases "routeEvent v te True True")
    case (Inl err)
    with a Some show ?thesis by (simp add: onTrigger_def)
  next
    case (Inr p)
    obtain res v2 where p: "p = (res, v2)" by (cases p)
    show ?thesis
    proof (cases res)
      case None
      with Inr p have "v2 = v" by (auto dest: routeEvent_None_unchanged)
      with a Some Inr p None show ?thesis by (simp add: onTrigger_def)
    next
      case (Some ev)
      with Inr p have "stopPropagation ev = False" by (auto dest: routeEvent_stop)
      with a \<open>system v = Some sys\<close> Inr p Some show ?thesis
        by (auto simp: onTrigger_def Let_def view_event_stop_id)
    qed
  qed
qed

lemma onPointer_not_found: "onPointer v pe \<noteq> Inl ViewportNotFound"
  using routeEvent_not_found[of v pe "fst (pointerFlags pe)" "snd (pointerFlags pe)"]
  by (auto simp: onPointer_def split_def Let_def split: option.splits sum.splits)

lemma onTrigger_not_found: "onTrigger v te \<noteq> Inl ViewportNotFound"
  using routeEvent_not_found[of v te True True]
  by (auto simp: onTrigger_def Let_def split: option.splits sum.splits prod.splits)

lemma onPointer_sticky:
  assumes "system v = Some sys" "activeViewport v = Some vp" "pointerFlags e = (False, False)"
  shows "\<exists>ev ds. onPointer v e = Inr (True, SystemOnPointer ev # ds, v) \<and> event ev = e
           \<and> viewport ev = vp \<and> object3D ev = activeObject3D v \<and> component ev = activeComponent v
           \<and> node ev = map_option (componentNode v) (activeComponent v)"
  using assms by (simp add: onPointer_def routeEvent_sticky augment_sel Let_def)

lemma onPointer_total:
  assumes "\<forall>sys i ob. system v = Some sys \<and> getObjectByIndex sys i = Some ob
             \<longrightarrow> userDataComponent v ob \<noteq> None"
  shows "\<exists>res. onPointer v pe = Inr res"
proof (cases "system v")
  case None
  then show ?thesis by (auto simp: onPointer_def)
next
  case (Some sys)
  with assms have "\<forall>i ob. getObjectByIndex sys i = Some ob \<longrightarrow> userDataComponent v ob \<noteq> None"
    by simp
  from routeEvent_total[OF Some this, of pe "fst (pointerFlags pe)" "snd (pointerFlags pe)"]
  obtain res where "routeEvent v pe (fst (pointerFlags pe)) (snd (pointerFlags pe)) = Inr res" ..
  with Some show ?thesis
    by (cases res) (auto simp: onPointer_def split_def Let_def split: option.splits)
qed

lemma onTrigger_total:
  assumes "\<forall>sys i ob. system v = Some sys \<and> getObjectByIndex sys i = Some ob
             \<longrightarrow> userDataComponent v ob \<noteq> None"
  shows "\<exists>res. onTrigger v te = Inr res"
proof (cases "system v")
  case None
  then show ?thesis by (auto simp: onTrigger_def)
next
  case (Some sys)
  with assms have "\<forall>i ob. getObjectByIndex sys i = Some ob \<longrightarrow> userDataComponent v ob \<noteq> None"
    by simp
  from routeEvent_total[OF Some this, of te True True]
  obtain res where "routeEvent v te True True = Inr res" ..
  with Some show ?thesis
    by (cases res) (auto simp: onTrigger_def Let_def split: option.splits)
qed

section \<open>The invariant of event processing\<close>

lemma routeEvent_registered:
  assumes "activeRegistered v" "routeEvent v e ht dp = Inr (Some ev, v')"
  shows "registeredEnabled v (viewport ev)"
proof (cases ht)
  case True
  with assms(2) show ?thesis
    using hitTest_Some_mem[OF routeEvent_hit_viewport] by (simp add: registeredEnabled_def)
next
  case False
  with assms show ?thesis
    by (auto simp: routeEvent_def Let_def augment_sel activeRegistered_def
             split: option.splits sum.splits prod.splits if_splits)
qed

lemma routeEvent_activeRegistered:
  assumes "activeRegistered v" "routeEvent v e ht dp = Inr (res, v')"
  shows "activeRegistered v'"
proof (cases res)
  case None
  with assms show ?thesis by (auto dest: routeEvent_None_unchanged)
next
  case (Some ev)
  with assms have "registeredEnabled v (viewport ev)" by (auto intro: routeEvent_registered)
  moreover from assms(2) Some have "activeViewport v' = Some (viewport ev)"
    by (auto dest: routeEvent_active)
  moreover from assms(2) have "viewports v' = viewports v" "viewportObj v' = viewportObj v"
    by (auto dest: routeEvent_frame)
  ultimately show ?thesis by (simp add: activeRegistered_def registeredEnabled_def)
qed

lemma dispatch_step:
  assumes inv: "activeRegistered v" and d: "dispatch v i = Inr (r, ds, v')"
  shows "activeRegistered v' \<and> viewports v' = viewports v \<and> viewportObj v' = viewportObj v
         \<and> (r \<longleftrightarrow> ds \<noteq> []) \<and> (\<forall>d \<in> set ds. registeredEnabled v (deliveredViewport d))"
proof (cases i)
  case (PointerInput pe)
  with d have a: "onPointer v pe = Inr (r, ds, v')" by (simp add: dispatch_def)
  from onPointer_cases[OF a] show ?thesis
  proof
    assume "r = False \<and> ds = [] \<and> v' = v \<and>
        (system v = None \<or> routeEvent v pe (fst (pointerFlags pe)) (snd (pointerFlags pe)) = Inr (None, v))"
    with inv show ?thesis by simp
  next
    assume "\<exists>sys ev. system v = Some sys
         \<and> routeEvent v pe (fst (pointerFlags pe)) (snd (pointerFlags pe)) = Inr (Some ev, v')
         \<and> r = True
         \<and> ds = SystemOnPointer ev #
                 (if sysOnPointer sys ev then [] else [ViewportOnPointer (viewport ev) ev])"
    then obtain sys ev where sv: "system v = Some sys" and
      re: "routeEvent v pe (fst (pointerFlags pe)) (snd (pointerFlags pe)) = Inr (Some ev, v')"
      and r: "r = True"
      and ds: "ds = SystemOnPointer ev #
                 (if sysOnPointer sys ev then [] else [ViewportOnPointer (viewport ev) ev])"
      by (elim exE conjE) (rule that, assumption+)
    from routeEvent_registered[OF inv re] routeEvent_activeRegistered[OF inv re]
      routeEvent_frame[OF re] r ds
    show ?thesis by simp
  qed
next
  case (TriggerInput te)
  with d have a: "onTrigger v te = Inr (r, ds, v')" by (simp add: dispatch_def)
  from onTrigger_cases[OF a] show ?thesis
  proof
    assume "r = False \<and> ds = [] \<and> v' = v \<and>
        (system v = None \<or> routeEvent v te True True = Inr (None, v))"
    with inv show ?thesis by simp
  next
    assume "\<exists>sys ev. system v = Some sys
         \<and> routeEvent v te True True = Inr (Some ev, v')
         \<and> r = True
         \<and> ds = SystemOnTrigger ev #
                 (if sysOnTrigger sys ev then [] else [ViewportOnTrigger (viewport ev) ev])"
    then obtain sys ev where sv: "system v = Some sys" and
      re: "routeEvent v te True True = Inr (Some ev, v')"
      and r: "r = True"
      and ds: "ds = SystemOnTrigger ev #
                 (if sysOnTrigger sys ev then [] else [ViewportOnTrigger (viewport ev) ev])"
      by (elim exE conjE) (rule that, assumption+)
    from routeEvent_registered[OF inv re] routeEvent_activeRegistered[OF inv re]
      routeEvent_frame[OF re] r ds
    show ?thesis by simp
  qed
qed

text \<open>The invariant holds for a view that has routed nothing yet.\<close>

lemma new_view_activeRegistered: "activeViewport v = None \<Longrightarrow> activeRegistered v"
  by (simp add: activeRegistered_def)

lemma process_registered:
  "activeRegistered v \<Longrightarrow> Inr (r, ds) \<in> set (process v inputs) \<Longrightarrow>
     (r \<longleftrightarrow> ds \<noteq> []) \<and> (\<forall>d \<in> set ds. registeredEnabled v (deliveredViewport d))"
proof (induction inputs arbitrary: v)
  case Nil
  then show ?case by simp
next
  case (Cons i inputs)
  show ?case
  proof (cases "dispatch v i")
    case (Inl err)
    with Cons.prems(2) have "Inr (r, ds) \<in> set (process v inputs)" by simp
    from Cons.IH[OF Cons.prems(1) this] show ?thesis .
  next
    case (Inr p)
    obtain r1 ds1 v1 where p: "p = (r1, ds1, v1)" by (cases p)
    from dispatch_step[OF Cons.prems(1) Inr[unfolded p]]
    have st: "activeRegistered v1" "viewports v1 = viewports v" "viewportObj v1 = viewportObj v"
      "r1 \<longleftrightarrow> ds1 \<noteq> []" "\<forall>d \<in> set ds1. registeredEnabled v (deliveredViewport d)"
      by simp_all
    from Cons.prems(2) Inr p
    consider "r = r1 \<and> ds = ds1" | "Inr (r, ds) \<in> set (process v1 inputs)" by auto
    then show ?thesis
    proof cases
      case 1
      with st show ?thesis by simp
    next
      case 2
      from Cons.IH[OF st(1) 2] st(2,3) show ?thesis by (simp add: registeredEnabled_def)
    qed
  qed
qed

lemma routeEvent_hit_registered:
  "routeEvent v e True dp = Inr (Some ev, v') \<Longrightarrow> registeredEnabled v (viewport ev)"
  using hitTest_Some_mem[OF routeEvent_hit_viewport] by (simp add: registeredEnabled_def)

section \<open>Facts about the clamping\<close>

lemma limit_within:
  "js_le lo hi \<Longrightarrow> limit a lo hi = NaN \<or> (js_le lo (limit a lo hi) \<and> js_le (limit a lo hi) hi)"
  by (cases a; cases lo; cases hi) (auto simp: limit_def js_le_def js_gt_def)

lemma limit_nanOrInRange: "js_le lo hi \<Longrightarrow> nanOrInRange (limit a lo hi) lo hi"
  using limit_within[of lo hi a] by (simp add: nanOrInRange_def inRange_def)

lemma updatePose_frame:
  "minOrbit (updatePose c dX dY dScale dPitch dHead dRoll) = minOrbit c"
  "maxOrbit (updatePose c dX dY dScale dPitch dHead dRoll) = maxOrbit c"
  "minOffset (updatePose c dX dY dScale dPitch dHead dRoll) = minOffset c"
  "maxOffset (updatePose c dX dY dScale dPitch dHead dRoll) = maxOffset c"
  "orientationEnabled (updatePose c dX dY dScale dPitch dHead dRoll) = orientationEnabled c"
  "offsetEnabled (updatePose c dX dY dScale dPitch dHead dRoll) = offsetEnabled c"
  "mode (updatePose c dX dY dScale dPitch dHead dRoll) = mode c"
  "phase (updatePose c dX dY dScale dPitch dHead dRoll) = phase c"
  "deltaX (updatePose c dX dY dScale dPitch dHead dRoll) = deltaX c"
  "deltaY (updatePose c dX dY dScale dPitch dHead dRoll) = deltaY c"
  by (simp_all add: updatePose_def updateOrbit_def updateOffset_def Let_def)

lemma updatePose_clampedOrNaN:
  assumes "orientationEnabled c" "offsetEnabled c" "limitsOrdered c"
  shows "clampedOrNaN (updatePose c dX dY dScale dPitch dHead dRoll)"
  using assms
  by (simp add: clampedOrNaN_def nanOrInRangeV_def limitsOrdered_def orderedV_def
        updatePose_def updateOrbit_def updateOffset_def Let_def limit_nanOrInRange)

lemma clampedOrNaN_deltas:
  "clampedOrNaN (c\<lparr>deltaX := a\<rparr>) = clampedOrNaN c"
  "clampedOrNaN (c\<lparr>deltaY := a\<rparr>) = clampedOrNaN c"
  "clampedOrNaN (c\<lparr>deltaPinch := a\<rparr>) = clampedOrNaN c"
  "clampedOrNaN (c\<lparr>deltaWheel := a\<rparr>) = clampedOrNaN c"
  "clampedOrNaN (c\<lparr>mode := m\<rparr>) = clampedOrNaN c"
  "clampedOrNaN (c\<lparr>phase := p\<rparr>) = clampedOrNaN c"
  "limitsOrdered (c\<lparr>deltaX := a\<rparr>) = limitsOrdered c"
  "limitsOrdered (c\<lparr>deltaY := a\<rparr>) = limitsOrdered c"
  "limitsOrdered (c\<lparr>deltaPinch := a\<rparr>) = limitsOrdered c"
  by (simp_all add: clampedOrNaN_def limitsOrdered_def)

lemma updateByMode_clampedOrNaN:
  assumes "orientationEnabled c" "offsetEnabled c" "limitsOrdered c" "clampedOrNaN c"
  shows "clampedOrNaN (updateByMode c)"
  using assms by (cases "mode c") (simp_all add: updateByMode_def Let_def updatePose_clampedOrNaN)

lemma update_clampedOrNaN:
  assumes "orientationEnabled c" "offsetEnabled c" "limitsOrdered c" "clampedOrNaN c"
  shows "clampedOrNaN (snd (update c))"
  using assms
  by (simp add: update_def Let_def clampedOrNaN_deltas updatePose_clampedOrNaN
        updateByMode_clampedOrNaN)

section \<open>The claims about the viewport registry\<close>

text \<open>
  C6, as stated, does not hold in its last part: \<open>removeViewport\<close> is not the only
  operation of the view that can end with an exception. \<open>enableViewport\<close> with an
  index outside the registry assigns to a property of \<open>undefined\<close>, and a dispatch whose
  pick finds an object without a component reads a property of \<open>undefined\<close>; both end
  with a \<open>TypeError\<close>.
\<close>

theorem removeViewport_only_explicit_throw_counterexample:
  "enableViewport exView 3 True = Inl TypeError
   \<and> enableViewport exView (- 1) False = Inl TypeError
   \<and> onPointer (exView\<lparr>userDataComponent := (\<lambda>ob. None)\<rparr>) (exDown 20 10) = Inl TypeError
   \<and> onTrigger (exView\<lparr>userDataComponent := (\<lambda>ob. None)\<rparr>) (exWheel 20 10) = Inl TypeError"
  by (simp add: ex_defs route_defs enableViewport_def)

text \<open>
  C6, amended: \<open>removeViewport\<close> raises the "viewport not found" failure exactly when
  the given viewport is not in the view's registry, and raises nothing for a viewport
  that is present. No other operation ends with that failure, the only one the view
  throws itself. \<open>enableViewport\<close> raises a \<open>TypeError\<close> exactly when its index is
  outside the registry; and on a view where every object that the system's lookup returns
  carries a component, \<open>onPointer\<close> and \<open>onTrigger\<close> raise nothing.
\<close>

theorem removeViewport_not_found_iff:
  "(removeViewport v vp = Inl ViewportNotFound \<longleftrightarrow> vp \<notin> set (viewports v))
   \<and> (vp \<in> set (viewports v) \<longrightarrow> (\<exists>v'. removeViewport v vp = Inr v'))
   \<and> onPointer v pe \<noteq> Inl ViewportNotFound
   \<and> onTrigger v te \<noteq> Inl ViewportNotFound
   \<and> enableViewport v i en \<noteq> Inl ViewportNotFound
   \<and> (enableViewport v i en = Inl TypeError \<longleftrightarrow> \<not> (0 \<le> i \<and> i < int (length (viewports v))))
   \<and> (0 \<le> i \<and> i < int (length (viewports v)) \<longrightarrow> (\<exists>v'. enableViewport v i en = Inr v'))
   \<and> ((\<forall>sys k ob. system v = Some sys \<and> getObjectByIndex sys k = Some ob
            \<longrightarrow> userDataComponent v ob \<noteq> None) \<longrightarrow>
        (\<exists>res. onPointer v pe = Inr res) \<and> (\<exists>res. onTrigger v te = Inr res))"
proof (intro conjI impI)
  show "removeViewport v vp = Inl ViewportNotFound \<longleftrightarrow> vp \<notin> set (viewports v)"
    by (auto simp: removeViewport_def Let_def indexOf_neg_iff)
  show "\<exists>v'. removeViewport v vp = Inr v'" if "vp \<in> set (viewports v)"
    using that by (auto simp: removeViewport_def Let_def indexOf_neg_iff)
  show "onPointer v pe \<noteq> Inl ViewportNotFound" by (rule onPointer_not_found)
  show "onTrigger v te \<noteq> Inl ViewportNotFound" by (rule onTrigger_not_found)
  show "enableViewport v i en \<noteq> Inl ViewportNotFound" by (rule enableViewport_not_found)
  show "enableViewport v i en = Inl TypeError \<longleftrightarrow> \<not> (0 \<le> i \<and> i < int (length (viewports v)))"
    by (rule enableViewport_raises_iff)
  show "\<exists>v'. enableViewport v i en = Inr v'" if "0 \<le> i \<and> i < int (length (viewports v))"
    using that by (rule enableViewport_in_range)
next
  assume h: "\<forall>sys k ob. system v = Some sys \<and> getObjectByIndex sys k = Some ob
            \<longrightarrow> userDataComponent v ob \<noteq> None"
  then show "\<exists>res. onPointer v pe = Inr res" by (rule onPointer_total)
  from h show "\<exists>res. onTrigger v te = Inr res" by (rule onTrigger_total)
qed

theorem removeViewport_not_found_iff_witness:
  "1 \<in> set (viewports exView) \<and> removeViewport exView 1 = Inr exView
   \<and> 9 \<notin> set (viewports exView) \<and> removeViewport exView 9 = Inl ViewportNotFound
   \<and> enableViewport exViewActive 1 False = Inr exViewDisabled
   \<and> enableViewport exView 3 False = Inl TypeError
   \<and> onPointer exView (exDown 20 10)
       = Inr (True, [SystemOnPointer (exPicked (exDown 20 10) 0),
                     ViewportOnPointer 0 (exPicked (exDown 20 10) 0)], exViewActive)
   \<and> onTrigger exView (exWheel 500 500) = Inr (False, [], exView)"
proof -
  have h: "\<forall>sys k ob. system exView = Some sys \<and> getObjectByIndex sys k = Some ob
            \<longrightarrow> userDataComponent exView ob \<noteq> None"
    by (simp add: exView_def exSystem_def)
  show ?thesis
    using removeViewport_not_found_iff[of exView 1 "exDown 20 10" "exWheel 500 500" 3 False]
      removeViewport_not_found_iff[of exView 9 "exDown 20 10" "exWheel 500 500" 1 False] h
    by (simp add: ex_defs route_defs removeViewport_def enableViewport_def)
qed

text \<open>
  C7: for a viewport that is present in the registry, \<open>removeViewport\<close> leaves the
  list of viewports (and the whole view) as it was, the argument included: the slice it
  takes is a new array that is dropped.
\<close>

theorem removeViewport_present_unchanged:
  "vp \<in> set (viewports v) \<Longrightarrow> removeViewport v vp = Inr v"
  by (simp add: removeViewport_def Let_def indexOf_neg_iff)

theorem removeViewport_present_unchanged_witness:
  "0 \<in> set (viewports exView) \<and> removeViewport exView 0 = Inr exView
   \<and> viewports exView = [2, 0, 1]"
  using removeViewport_present_unchanged[of 0 exView]
  by (simp add: exView_def)

section \<open>The claims about event routing\<close>

text \<open>
  C1: when \<open>routeEvent\<close> is called with \<open>doHitTest\<close> set, the viewport of the routed
  event is the first one in registration order that is enabled and contains the event's
  local coordinates. In both directions: a routed event carries that viewport; and
  whenever the registry holds an enabled viewport containing the coordinates, the first
  such viewport is resolved and a routed event for it is produced (with \<open>doPick\<close> set,
  unless the pick itself raises). If no enabled viewport contains the coordinates,
  \<open>routeEvent\<close> returns nothing, the view is unchanged, and \<open>onTrigger\<close> and a
  hit-testing \<open>onPointer\<close> deliver no event and return false.
\<close>

theorem routeEvent_hitTest_first_enabled:
  "(routeEvent v e True doPick = Inr (Some ev, v') \<longrightarrow>
      (\<exists>i < length (viewports v). viewport ev = viewports v ! i
          \<and> hits v (localX e) (localY e) (viewports v ! i)
          \<and> (\<forall>j < i. \<not> hits v (localX e) (localY e) (viewports v ! j))))
   \<and> (k < length (viewports v) \<and> hits v (localX e) (localY e) (viewports v ! k)
        \<and> (\<forall>j < k. \<not> hits v (localX e) (localY e) (viewports v ! j)) \<longrightarrow>
          resolve v e True = Some (viewports v ! k)
          \<and> (\<exists>ev' v''. routeEvent v e True False = Inr (Some ev', v'')
                \<and> viewport ev' = viewports v ! k)
          \<and> (routeEvent v e True True = Inl TypeError
              \<or> (\<exists>ev' v''. routeEvent v e True True = Inr (Some ev', v'')
                    \<and> viewport ev' = viewports v ! k)))
   \<and> (r \<in> set (viewports v) \<and> hits v (localX e) (localY e) r \<longrightarrow>
          (\<exists>vp'. resolve v e True = Some vp')
          \<and> (\<exists>ev' v''. routeEvent v e True False = Inr (Some ev', v'')))
   \<and> (resolve v e True = Some vp \<longrightarrow>
          (\<exists>ev' v''. routeEvent v e True False = Inr (Some ev', v'') \<and> viewport ev' = vp))
   \<and> ((\<forall>r \<in> set (viewports v). \<not> hits v (localX e) (localY e) r) \<longrightarrow>
          routeEvent v e True doPick = Inr (None, v))
   \<and> ((\<forall>r \<in> set (viewports v). \<not> hits v (localX te) (localY te) r) \<longrightarrow>
          onTrigger v te = Inr (False, [], v))
   \<and> ((\<forall>r \<in> set (viewports v). \<not> hits v (localX pe) (localY pe) r) \<and> fst (pointerFlags pe) \<longrightarrow>
          onPointer v pe = Inr (False, [], v))"
proof (intro conjI impI)
  assume "routeEvent v e True doPick = Inr (Some ev, v')"
  from hitTest_Some_first[OF routeEvent_hit_viewport[OF this]]
  show "\<exists>i < length (viewports v). viewport ev = viewports v ! i
          \<and> hits v (localX e) (localY e) (viewports v ! i)
          \<and> (\<forall>j < i. \<not> hits v (localX e) (localY e) (viewports v ! j))"
    unfolding hits_def by metis
next
  assume a: "k < length (viewports v) \<and> hits v (localX e) (localY e) (viewports v ! k)
        \<and> (\<forall>j < k. \<not> hits v (localX e) (localY e) (viewports v ! j))"
  then have "hitTest (viewportObj v) (viewports v) (localX e) (localY e) = Some (viewports v ! k)"
    by (intro hitTest_first) (simp_all add: hits_def)
  then show res: "resolve v e True = Some (viewports v ! k)" by (simp add: resolve_def)
  from routeEvent_resolved_no_pick[OF res]
  show "\<exists>ev' v''. routeEvent v e True False = Inr (Some ev', v'') \<and> viewport ev' = viewports v ! k" .
  from routeEvent_resolved_cases[OF res]
  show "routeEvent v e True True = Inl TypeError
        \<or> (\<exists>ev' v''. routeEvent v e True True = Inr (Some ev', v'')
              \<and> viewport ev' = viewports v ! k)" .
next
  assume a: "r \<in> set (viewports v) \<and> hits v (localX e) (localY e) r"
  then have "hitTest (viewportObj v) (viewports v) (localX e) (localY e) \<noteq> None"
    by (auto simp: hitTest_None_iff hits_def)
  then obtain vp' where res: "resolve v e True = Some vp'" by (auto simp: resolve_def)
  then show "\<exists>vp'. resolve v e True = Some vp'" ..
  from routeEvent_resolved_no_pick[OF res]
  show "\<exists>ev' v''. routeEvent v e True False = Inr (Some ev', v'')" by blast
next
  assume "resolve v e True = Some vp"
  then show "\<exists>ev' v''. routeEvent v e True False = Inr (Some ev', v'') \<and> viewport ev' = vp"
    by (rule routeEvent_resolved_no_pick)
next
  assume "\<forall>r \<in> set (viewports v). \<not> hits v (localX e) (localY e) r"
  then have "hitTest (viewportObj v) (viewports v) (localX e) (localY e) = None"
    by (simp add: hitTest_None_iff hits_def)
  then show "routeEvent v e True doPick = Inr (None, v)" by (rule routeEvent_hit_none)
next
  assume "\<forall>r \<in> set (viewports v). \<not> hits v (localX te) (localY te) r"
  then have "hitTest (viewportObj v) (viewports v) (localX te) (localY te) = None"
    by (simp add: hitTest_None_iff hits_def)
  then have "routeEvent v te True True = Inr (None, v)" by (rule routeEvent_hit_none)
  then show "onTrigger v te = Inr (False, [], v)"
    by (simp add: onTrigger_def split: option.splits)
next
  assume a: "(\<forall>r \<in> set (viewports v). \<not> hits v (localX pe) (localY pe) r) \<and> fst (pointerFlags pe)"
  then have "hitTest (viewportObj v) (viewports v) (localX pe) (localY pe) = None"
    by (simp add: hitTest_None_iff hits_def)
  then have "routeEvent v pe True (snd (pointerFlags pe)) = Inr (None, v)"
    by (rule routeEvent_hit_none)
  with a show "onPointer v pe = Inr (False, [], v)"
    by (cases "pointerFlags pe") (simp add: onPointer_def split: option.splits)
qed

theorem routeEvent_hitTest_first_enabled_witness:
  "routeEvent exView (exDown 60 10) True True
     = Inr (Some (augment exView (exDown 60 10) 60 10 0), exView\<lparr>activeViewport := Some 0\<rparr>)
   \<and> viewports exView ! 1 = 0
   \<and> hits exView 60 10 (viewports exView ! 1) \<and> \<not> hits exView 60 10 (viewports exView ! 0)
   \<and> hits exView 60 10 (viewports exView ! 2)
   \<and> resolve exView (exDown 60 10) True = Some 0
   \<and> viewports exView ! 2 = 1
   \<and> hits exView 150 10 (viewports exView ! 2) \<and> \<not> hits exView 150 10 (viewports exView ! 0)
   \<and> \<not> hits exView 150 10 (viewports exView ! 1)
   \<and> routeEvent exView (exDown 150 10) True False
       = Inr (Some (augment exView (exDown 150 10) 150 10 1), exView\<lparr>activeViewport := Some 1\<rparr>)
   \<and> \<not> hits exView 500 500 2 \<and> \<not> hits exView 500 500 0 \<and> \<not> hits exView 500 500 1
   \<and> fst (pointerFlags (exHover 500 500))
   \<and> routeEvent exView (exHover 500 500) True False = Inr (None, exView)
   \<and> onTrigger exView (exWheel 500 500) = Inr (False, [], exView)
   \<and> onPointer exView (exHover 500 500) = Inr (False, [], exView)"
  using routeEvent_hitTest_first_enabled[where v = exView and e = "exDown 60 10" and doPick = True
      and ev = "augment exView (exDown 60 10) 60 10 0"
      and v' = "exView\<lparr>activeViewport := Some 0\<rparr>" and vp = 0 and k = 1 and r = 0
      and te = "exWheel 500 500" and pe = "exHover 500 500"]
    routeEvent_hitTest_first_enabled[where v = exView and e = "exDown 150 10" and doPick = False
      and k = 2 and r = 1 and vp = 1
      and te = "exWheel 500 500" and pe = "exHover 500 500"]
    routeEvent_hitTest_first_enabled[where v = exView and e = "exHover 500 500" and doPick = False
      and te = "exWheel 500 500" and pe = "exHover 500 500"]
  by (simp add: ex_defs route_defs)

text \<open>
  C3: when \<open>routeEvent\<close> is called with \<open>doPick\<close> set and the picker returns index 0,
  the routed event is produced with no object, no component and no node (index 0 is the
  background), and the view's active object and component are cleared. The picker is
  called when the view has a system with an active scene and camera and a viewport has
  been resolved.
\<close>

theorem pick_index_zero_background:
  "system v = Some sys \<Longrightarrow> activeScene sys = Some sc \<Longrightarrow> activeCamera sys = Some cam \<Longrightarrow>
   resolve v e doHitTest = Some vp \<Longrightarrow>
   pickIndex v sc cam (pickQuery v e vp) = 0 \<Longrightarrow>
   \<exists>ev v'. routeEvent v e doHitTest True = Inr (Some ev, v')
      \<and> viewport ev = vp \<and> object3D ev = None \<and> component ev = None \<and> node ev = None
      \<and> activeObject3D v' = None \<and> activeComponent v' = None"
  by (simp add: routeEvent_def pick_def Let_def resolve_def pickQuery_def augment_sel
        split: if_splits)

theorem pick_index_zero_background_witness:
  "system exViewActive = Some exSystem \<and> activeScene exSystem = Some 0
   \<and> activeCamera exSystem = Some 0
   \<and> resolve exViewActive (exDown 60 10) True = Some 0
   \<and> pickIndex exViewActive 0 0 (pickQuery exViewActive (exDown 60 10) 0) = 0
   \<and> routeEvent exViewActive (exDown 60 10) True True
       = Inr (Some (augment exView (exDown 60 10) 60 10 0), exView\<lparr>activeViewport := Some 0\<rparr>)"
  using pick_index_zero_background[of exViewActive exSystem 0 0 "exDown 60 10" True 0]
  by (simp add: ex_defs route_defs)

text \<open>
  C4: when \<open>routeEvent\<close> is called with \<open>doPick\<close> set and the pick cannot be completed
  (there is no active scene or no active camera, or the picker returns a non-zero index
  that the system's lookup does not know), no exception leaves \<open>routeEvent\<close> and the
  routed event has no object, no component and no node. \<open>routeEvent\<close> is reached only
  through \<open>onPointer\<close> and \<open>onTrigger\<close>, which return false at once for a view
  without a system.
\<close>

theorem pick_failure_clears_object:
  "(system v = Some sys \<and> resolve v e doHitTest = None \<longrightarrow>
      routeEvent v e doHitTest True = Inr (None, v))
   \<and> (system v = Some sys \<and> resolve v e doHitTest = Some vp \<and>
       (activeScene sys = None \<or> activeCamera sys = None \<or>
        (\<exists>sc cam. activeScene sys = Some sc \<and> activeCamera sys = Some cam
           \<and> pickIndex v sc cam (pickQuery v e vp) \<noteq> 0
           \<and> getObjectByIndex sys (pickIndex v sc cam (pickQuery v e vp)) = None)) \<longrightarrow>
       (\<exists>ev v'. routeEvent v e doHitTest True = Inr (Some ev, v')
          \<and> viewport ev = vp \<and> object3D ev = None \<and> component ev = None \<and> node ev = None
          \<and> activeObject3D v' = None \<and> activeComponent v' = None))
   \<and> (system v = None \<longrightarrow>
        onPointer v pe = Inr (False, [], v) \<and> onTrigger v te = Inr (False, [], v))"
  by (auto simp: routeEvent_def pick_def Let_def resolve_def pickQuery_def augment_sel
        onPointer_def onTrigger_def split: option.splits if_splits)

theorem pick_failure_clears_object_witness:
  "system exViewActive = Some exSystem
   \<and> resolve exViewActive (exDown 500 500) True = None
   \<and> routeEvent exViewActive (exDown 500 500) True True = Inr (None, exViewActive)
   \<and> resolve exViewActive (exDown 150 10) True = Some 1
   \<and> activeScene exSystem = Some 0 \<and> activeCamera exSystem = Some 0
   \<and> pickIndex exViewActive 0 0 (pickQuery exViewActive (exDown 150 10) 1) = 5
   \<and> getObjectByIndex exSystem 5 = None
   \<and> routeEvent exViewActive (exDown 150 10) True True
       = Inr (Some (augment exView (exDown 150 10) 150 10 1), exView\<lparr>activeViewport := Some 1\<rparr>)
   \<and> system (exViewActive\<lparr>system := Some (exSystem\<lparr>activeCamera := None\<rparr>)\<rparr>)
       = Some (exSystem\<lparr>activeCamera := None\<rparr>)
   \<and> routeEvent (exViewActive\<lparr>system := Some (exSystem\<lparr>activeCamera := None\<rparr>)\<rparr>) (exDown 20 10) True True
       = Inr (Some (augment exView (exDown 20 10) 20 10 0),
              exView\<lparr>system := Some (exSystem\<lparr>activeCamera := None\<rparr>), activeViewport := Some 0\<rparr>)
   \<and> system (exView\<lparr>system := None\<rparr>) = None
   \<and> onPointer (exView\<lparr>system := None\<rparr>) (exDown 20 10) = Inr (False, [], exView\<lparr>system := None\<rparr>)"
  using pick_failure_clears_object[of exViewActive exSystem "exDown 500 500" True]
    pick_failure_clears_object[of exViewActive exSystem "exDown 150 10" True 1]
    pick_failure_clears_object[of "exViewActive\<lparr>system := Some (exSystem\<lparr>activeCamera := None\<rparr>)\<rparr>"
       "exSystem\<lparr>activeCamera := None\<rparr>" "exDown 20 10" True 0]
    pick_failure_clears_object[of "exView\<lparr>system := None\<rparr>" _ _ _ _ "exDown 20 10"]
  by (simp add: ex_defs route_defs)

text \<open>
  C5: sticky selection. When a primary pointer-down event is routed to viewport \<open>V\<close>
  with picked object \<open>O\<close>, the pointer-move event that follows (routed with neither
  hit test nor pick) is routed to the same viewport with the same object, component and
  node, wherever its coordinates lie, and leaves the view's state as it is.
\<close>

theorem sticky_selection:
  assumes "ptype dn = Down" "isPrimary dn" "ptype mv = Move"
      and "onPointer v dn = Inr (True, SystemOnPointer ev # ds, v')"
  shows "pointerFlags mv = (False, False)
         \<and> (\<exists>ev' ds'. onPointer v' mv = Inr (True, SystemOnPointer ev' # ds', v')
               \<and> event ev' = mv
               \<and> viewport ev' = viewport ev \<and> object3D ev' = object3D ev
               \<and> component ev' = component ev \<and> node ev' = node ev)"
proof -
  from onPointer_cases[OF assms(4)] obtain sys where
    sys: "system v = Some sys" and
    r: "routeEvent v dn (fst (pointerFlags dn)) (snd (pointerFlags dn)) = Inr (Some ev, v')"
    by auto
  from routeEvent_frame[OF r] sys have sys': "system v' = Some sys" by simp
  from routeEvent_active[OF r] have act: "activeViewport v' = Some (viewport ev)"
    "activeObject3D v' = object3D ev" "activeComponent v' = component ev"
    "node ev = map_option (componentNode v') (component ev)" by simp_all
  from assms(3) have fl: "pointerFlags mv = (False, False)" by (simp add: pointerFlags_def)
  from onPointer_sticky[OF sys' act(1) fl] act fl show ?thesis by auto
qed

theorem sticky_selection_witness:
  "ptype (exDown 20 10) = Down \<and> isPrimary (exDown 20 10) \<and> ptype (exMove 30 10) = Move
   \<and> onPointer exView (exDown 20 10)
       = Inr (True, [SystemOnPointer (exPicked (exDown 20 10) 0),
                     ViewportOnPointer 0 (exPicked (exDown 20 10) 0)], exViewActive)
   \<and> onPointer exViewActive (exMove 30 10)
       = Inr (True, [SystemOnPointer (exPicked (exMove 30 10) 0),
                     ViewportOnPointer 0 (exPicked (exMove 30 10) 0)], exViewActive)
   \<and> object3D (exPicked (exMove 30 10) 0) = Some 7"
  using sticky_selection[of "exDown 20 10" "exMove 30 10" exView "exPicked (exDown 20 10) 0"
      "[ViewportOnPointer 0 (exPicked (exDown 20 10) 0)]" exViewActive]
  by (simp add: ex_defs route_defs)



text \<open>
  C9, as the specification states it, does not hold: a hit test that finds no viewport
  does not clear the view's active viewport. After a pointer-down on viewport 0 that
  picks object 7, a hover outside every viewport is routed nowhere and leaves viewport 0
  active, and the move that follows, routed without a hit test, still produces a routed
  event for viewport 0.
\<close>

theorem hitTest_miss_keeps_active_counterexample:
  "routeEvent exView (exDown 20 10) True True = Inr (Some (exPicked (exDown 20 10) 0), exViewActive)
   \<and> routeEvent exViewActive (exHover 500 500) True False = Inr (None, exViewActive)
   \<and> activeViewport exViewActive = Some 0
   \<and> routeEvent exViewActive (exMove 500 500) False False
       = Inr (Some (exPicked (exMove 500 500) 0), exViewActive)"
  by (simp add: ex_defs route_defs)

text \<open>
  C9, amended: with \<open>doHitTest\<close> set, \<open>routeEvent\<close> disregards the active viewport
  for the call (the routed event is the same whatever the active viewport was). When the
  hit test finds no containing enabled viewport, the call returns nothing and leaves the
  view, its active viewport included, unchanged; so an event routed afterwards without a
  hit test produces no routed event exactly when there was no active viewport before, and
  is otherwise routed to that viewport.
\<close>

theorem hitTest_miss_keeps_active_state:
  "(resolve v e True = None \<longrightarrow>
      routeEvent v e True doPick = Inr (None, v)
      \<and> (routeEvent v e' False False = Inr (None, v) \<longleftrightarrow> activeViewport v = None)
      \<and> (\<forall>vp. activeViewport v = Some vp \<longrightarrow>
            (\<exists>ev. routeEvent v e' False False = Inr (Some ev, v) \<and> viewport ev = vp)))
   \<and> map_sum id fst (routeEvent (v\<lparr>activeViewport := a\<rparr>) e True doPick)
       = map_sum id fst (routeEvent v e True doPick)"
proof (intro conjI impI allI)
  assume "resolve v e True = None"
  then show "routeEvent v e True doPick = Inr (None, v)"
    by (simp add: resolve_def routeEvent_hit_none)
next
  show "routeEvent v e' False False = Inr (None, v) \<longleftrightarrow> activeViewport v = None"
    by (cases "activeViewport v") (simp_all add: routeEvent_def Let_def)
next
  fix vp assume "activeViewport v = Some vp"
  then show "\<exists>ev. routeEvent v e' False False = Inr (Some ev, v) \<and> viewport ev = vp"
    by (simp add: routeEvent_sticky augment_sel)
next
  show "map_sum id fst (routeEvent (v\<lparr>activeViewport := a\<rparr>) e True doPick)
       = map_sum id fst (routeEvent v e True doPick)"
    by (auto simp: routeEvent_def pick_def augment_def Let_def
             split: option.splits sum.splits prod.splits)
qed

theorem hitTest_miss_keeps_active_state_witness:
  "resolve exViewActive (exHover 500 500) True = None
   \<and> routeEvent exViewActive (exHover 500 500) True False = Inr (None, exViewActive)
   \<and> activeViewport exViewActive = Some 0
   \<and> routeEvent exViewActive (exMove 500 500) False False
       = Inr (Some (exPicked (exMove 500 500) 0), exViewActive)
   \<and> resolve exView (exHover 500 500) True = None
   \<and> activeViewport exView = None
   \<and> routeEvent exView (exMove 500 500) False False = Inr (None, exView)"
  using hitTest_miss_keeps_active_state[of exViewActive "exHover 500 500" False "exMove 500 500"]
    hitTest_miss_keeps_active_state[of exView "exHover 500 500" False "exMove 500 500"]
  by (simp add: ex_defs route_defs)

text \<open>
  C2, as stated, does not hold: an event routed without a hit test goes to the active
  viewport, and only the hit test looks at the \<open>enabled\<close> flag. After a pointer-down
  on viewport 0 of a new view and \<open>enableViewport(1, false)\<close>, which disables that
  viewport, the pointer-move that follows is delivered to the system and to viewport 0,
  registered but disabled.
\<close>

theorem routed_viewport_disabled_counterexample:
  "activeViewport exView = None
   \<and> onPointer exView (exDown 20 10)
       = Inr (True, [SystemOnPointer (exPicked (exDown 20 10) 0),
                     ViewportOnPointer 0 (exPicked (exDown 20 10) 0)], exViewActive)
   \<and> enableViewport exViewActive 1 False = Inr exViewDisabled
   \<and> onPointer exViewDisabled (exMove 30 10)
       = Inr (True, [SystemOnPointer (exPicked (exMove 30 10) 0),
                     ViewportOnPointer 0 (exPicked (exMove 30 10) 0)], exViewDisabled)
   \<and> viewport (exPicked (exMove 30 10) 0) = 0
   \<and> 0 \<in> set (viewports exViewDisabled)
   \<and> \<not> enabled (viewportObj exViewDisabled 0)"
  by (simp add: ex_defs route_defs enableViewport_def)

text \<open>
  C2, amended: every routed event that a hit test produces carries a viewport that is
  registered in the view and enabled. For every sequence of pointer and trigger events
  processed by a view whose active viewport is absent (a new view) or registered and
  enabled when the sequence starts, with nothing but the events acting on the view, every
  routed event that is delivered carries a registered, enabled viewport, and a dispatch
  returns true exactly when it delivered a routed event, so that nothing is delivered
  when no viewport is resolved.
\<close>

theorem routed_viewport_registered_enabled:
  "(routeEvent v e True doPick = Inr (Some ev, v') \<longrightarrow> registeredEnabled v (viewport ev))
   \<and> (activeViewport v = None \<longrightarrow> activeRegistered v)
   \<and> (activeRegistered v \<and> Inr (r, ds) \<in> set (process v inputs) \<longrightarrow>
        (r \<longleftrightarrow> ds \<noteq> []) \<and> (\<forall>d \<in> set ds. registeredEnabled v (deliveredViewport d)))"
  using routeEvent_hit_registered[of v e doPick ev v'] new_view_activeRegistered[of v]
    process_registered[of v r ds inputs]
  by blast

theorem routed_viewport_registered_enabled_witness:
  "activeViewport exView = None \<and> activeRegistered exView
   \<and> routeEvent exView (exDown 20 10) True True
       = Inr (Some (exPicked (exDown 20 10) 0), exViewActive)
   \<and> registeredEnabled exView (viewport (exPicked (exDown 20 10) 0))
   \<and> process exView [PointerInput (exMove 30 10), PointerInput (exDown 20 10),
                      PointerInput (exMove 150 10), TriggerInput (exWheel 500 500)]
       = [Inr (False, []),
          Inr (True, [SystemOnPointer (exPicked (exDown 20 10) 0),
                      ViewportOnPointer 0 (exPicked (exDown 20 10) 0)]),
          Inr (True, [SystemOnPointer (exPicked (exMove 150 10) 0),
                      ViewportOnPointer 0 (exPicked (exMove 150 10) 0)]),
          Inr (False, [])]
   \<and> registeredEnabled exView (deliveredViewport (SystemOnPointer (exPicked (exMove 150 10) 0)))
   \<and> registeredEnabled exView
        (deliveredViewport (ViewportOnPointer 0 (exPicked (exMove 150 10) 0)))"
  using routed_viewport_registered_enabled[of exView "exDown 20 10" True
      "exPicked (exDown 20 10) 0" exViewActive True
      "[SystemOnPointer (exPicked (exMove 150 10) 0),
        ViewportOnPointer 0 (exPicked (exMove 150 10) 0)]"
      "[PointerInput (exMove 30 10), PointerInput (exDown 20 10),
        PointerInput (exMove 150 10), TriggerInput (exWheel 500 500)]"]
  by (simp add: ex_defs route_defs dispatch_def activeRegistered_def registeredEnabled_def)

section \<open>The claim about the camera controller\<close>

text \<open>
  C10, as stated, does not hold for arbitrary deltas and states: a component can end as
  \<open>NaN\<close>, which lies in no interval. With a viewport height of 0 (a canvas of no
  height) and an orbit drag of 5 pixels to the side, \<open>0 * 300 / 0\<close> is \<open>NaN\<close>;
  \<open>limit\<close> returns it as it is, and the pitch and roll of the orbit and the \<open>x\<close> and
  \<open>y\<close> of the offset are \<open>NaN\<close> after the call. And when a lower limit exceeds its
  upper limit, \<open>limit\<close> returns one of the two, outside the (empty) interval: with
  pitch limits 45 and -45 a call with no movement at all sets the pitch to 45.
\<close>

theorem updatePose_zero_height_counterexample:
  "orientationEnabled (setViewportSize newCameraController (Fin 0) (Fin 0))
   \<and> offsetEnabled (setViewportSize newCameraController (Fin 0) (Fin 0))
   \<and> orbit (updatePose (setViewportSize newCameraController (Fin 0) (Fin 0))
              (Fin 0) (Fin 0) (Fin 1) (Fin 0) (Fin 5) (Fin 0))
       = \<lparr>vx = NaN, vy = NegInf, vz = NaN\<rparr>
   \<and> offset (updatePose (setViewportSize newCameraController (Fin 0) (Fin 0))
              (Fin 0) (Fin 0) (Fin 1) (Fin 0) (Fin 5) (Fin 0))
       = \<lparr>vx = NaN, vy = NaN, vz = Fin 50\<rparr>
   \<and> \<not> clamped (updatePose (setViewportSize newCameraController (Fin 0) (Fin 0))
                  (Fin 0) (Fin 0) (Fin 1) (Fin 0) (Fin 5) (Fin 0))
   \<and> orientationEnabled exInvertedLimits \<and> offsetEnabled exInvertedLimits
   \<and> orbit (updatePose exInvertedLimits (Fin 0) (Fin 0) (Fin 1) (Fin 0) (Fin 0) (Fin 0))
       = \<lparr>vx = Fin 45, vy = Fin 0, vz = Fin 0\<rparr>
   \<and> \<not> clamped (updatePose exInvertedLimits (Fin 0) (Fin 0) (Fin 1) (Fin 0) (Fin 0) (Fin 0))"
  by (simp add: clamped_def inRangeV_def inRange_def js_le_def
        updatePose_def updateOrbit_def updateOffset_def Let_def limit_def js_gt_def js_sub_def
        newCameraController_def setViewportSize_def exInvertedLimits_def)

text \<open>
  C10, amended: after every call to \<open>updatePose\<close> with \<open>orientationEnabled\<close> and
  \<open>offsetEnabled\<close> set, on a controller whose lower limits are at most its upper
  limits, each component of the orbit and of the offset is \<open>NaN\<close> or lies within its
  limits, for arbitrary deltas; and \<open>update\<close>, which applies the pointer and wheel
  deltas, preserves this.
\<close>

theorem updatePose_clamped_or_NaN:
  assumes "orientationEnabled c" "offsetEnabled c" "limitsOrdered c"
  shows "clampedOrNaN (updatePose c dX dY dScale dPitch dHead dRoll)
         \<and> (clampedOrNaN c \<longrightarrow> clampedOrNaN (snd (update c)))"
  using assms by (simp add: updatePose_clampedOrNaN update_clampedOrNaN)

theorem updatePose_clamped_or_NaN_witness:
  "orientationEnabled newCameraController \<and> offsetEnabled newCameraController
   \<and> limitsOrdered newCameraController \<and> clampedOrNaN newCameraController
   \<and> orbit (updatePose newCameraController (Fin 0) (Fin 0) (Fin 1) (Fin 40) (Fin 5) (Fin 0))
       = \<lparr>vx = Fin (- 90), vy = Fin (- 15), vz = Fin 0\<rparr>
   \<and> offset (updatePose newCameraController (Fin 200) (Fin 0) (Fin 30) (Fin 0) (Fin 0) (Fin 0))
       = \<lparr>vx = Fin (- 3000), vy = Fin 0, vz = Fin 1000\<rparr>
   \<and> clamped (updatePose newCameraController (Fin 0) (Fin 0) (Fin 1) (Fin 40) (Fin 5) (Fin 0))
   \<and> clampedOrNaN (updatePose newCameraController (Fin 0) (Fin 0) (Fin 1) (Fin 40) (Fin 5) (Fin 0))
   \<and> clampedOrNaN (snd (update (newCameraController\<lparr>deltaWheel := Fin 1\<rparr>)))"
  using updatePose_clamped_or_NaN[of newCameraController "Fin 0" "Fin 0" "Fin 1" "Fin 40" "Fin 5" "Fin 0"]
    updatePose_clamped_or_NaN[of "newCameraController\<lparr>deltaWheel := Fin 1\<rparr>"]
  by (simp add: clamped_def clampedOrNaN_def nanOrInRangeV_def nanOrInRange_def
        inRangeV_def inRange_def js_le_def limitsOrdered_def orderedV_def
        updatePose_def updateOrbit_def updateOffset_def Let_def limit_def js_gt_def js_sub_def
        newCameraController_def update_def)

end
